theory Spec2Isabelle
  imports Main
begin

section \<open>Python values used by app.py\<close>

text \<open>
  The values \<^verbatim>\<open>json.load\<close> produces. Float literals are left out: the schema file
  holds names and type names.
\<close>

datatype json =
    JNull
  | JBool bool
  | JNum int
  | JStr string
  | JArr "json list"
  | JObj "(string \<times> json) list"

text \<open>
  The values stored in the dictionaries the two tools return: a string, the list of
  column names, the list of row tuples (cells of type \<open>'v\<close>), or a schema description.
\<close>

datatype 'v pyval =
    Str string
  | Names "string list"
  | Rows "'v list list"
  | Json json

text \<open>A dict literal, in the order its keys are written; \<open>map_of\<close> is the lookup.\<close>

type_synonym 'v pydict = "(string \<times> 'v pyval) list"

text \<open>An exception: its class name and \<^verbatim>\<open>str(e)\<close>.\<close>

datatype py_exception = Raised string string

fun str_exc :: "py_exception \<Rightarrow> string" where
  "str_exc (Raised cls msg) = msg"

section \<open>The sqlite3 module, as a parameter\<close>

text \<open>
  One entry of \<^verbatim>\<open>cursor.description\<close>: a 7-tuple whose item 0 is the column name
  (sqlite3 leaves the other six \<^verbatim>\<open>None\<close>).
\<close>

datatype descriptor = Descriptor string

fun item0 :: "descriptor \<Rightarrow> string" where
  "item0 (Descriptor n) = n"

text \<open>
  The engine is not part of app.py. It is a parameter: functions on an engine state
  \<open>'db\<close> (everything the engine's answers depend on), with \<open>Inl\<close> for a raised
  exception. \<open>connect\<close>, \<open>execute\<close> and \<open>close\<close> take the path of the database
  file the connection belongs to; \<open>'cur\<close> is what a cursor holds after \<open>execute\<close>.
\<close>

record ('db, 'cur, 'v) sqlite3 =
  connect :: "string \<Rightarrow> 'db \<Rightarrow> py_exception + 'db"
  execute :: "string \<Rightarrow> string \<Rightarrow> 'db \<Rightarrow> (py_exception + 'cur) \<times> 'db"
  fetchall :: "'cur \<Rightarrow> 'db \<Rightarrow> (py_exception + 'v list list) \<times> 'db"
  description :: "'cur \<Rightarrow> descriptor list option"
  close :: "string \<Rightarrow> 'db \<Rightarrow> 'db"

section \<open>The process state\<close>

text \<open>What streamlit has been asked to render.\<close>

datatype ('v, 'r) element =
    Write_text string
  | Markdown string
  | Write_dict "'v pydict"
  | Write_result 'r

text \<open>
  The state the script reads and changes: the engine state, the connections that are
  open (handles are numbers, \<open>next_conn\<close> the next one to hand out), what \<^verbatim>\<open>print\<close>
  has written, and the page.
\<close>

record ('db, 'v, 'r) world =
  db :: 'db
  open_conns :: "nat list"
  next_conn :: nat
  stdout :: "string list"
  page :: "('v, 'r) element list"

section \<open>Setup: reading databases and schema (lines 22-37)\<close>

text \<open>The file system as the scan sees it.\<close>

record filesystem =
  listdir :: "string list"
  isdir :: "string \<Rightarrow> bool"
  exists :: "string \<Rightarrow> bool"

definition BASE_DIR :: string where
  "BASE_DIR = ''./data/database/''"

text \<open>\<^verbatim>\<open>os.path.join\<close> of two components (posixpath).\<close>

definition path_join :: "string \<Rightarrow> string \<Rightarrow> string" where
  "path_join a p =
     (if p \<noteq> [] \<and> hd p = CHR ''/'' then p
      else if a = [] \<or> last a = CHR ''/'' then a @ p
      else a @ ''/'' @ p)"

text \<open>The body of the loop for one directory entry: the path chosen for it, if any.\<close>

definition db_entry :: "filesystem \<Rightarrow> string \<Rightarrow> string option" where
  "db_entry fs db_id =
     (let db_dir_path = path_join BASE_DIR db_id in
      if isdir fs db_dir_path then
        (let sqlite_path = path_join db_dir_path (db_id @ ''.sqlite'');
             db_path = path_join db_dir_path (db_id @ ''.db'')
         in if exists fs sqlite_path then Some sqlite_path
            else if exists fs db_path then Some db_path
            else None)
      else None)"

text \<open>The loop over \<^verbatim>\<open>os.listdir(BASE_DIR)\<close>, updating the dictionary.\<close>

fun scan :: "filesystem \<Rightarrow> string list \<Rightarrow> (string \<rightharpoonup> string) \<Rightarrow> (string \<rightharpoonup> string)" where
  "scan fs [] m = m"
| "scan fs (db_id # rest) m =
     scan fs rest (case db_entry fs db_id of None \<Rightarrow> m | Some p \<Rightarrow> m(db_id \<mapsto> p))"

definition db_map :: "filesystem \<Rightarrow> (string \<rightharpoonup> string)" where
  "db_map fs = scan fs (listdir fs) Map.empty"

section \<open>SchemaInfoTool.run (lines 47-54)\<close>

definition SchemaInfoTool_run ::
  "(string \<rightharpoonup> json) \<Rightarrow> string \<Rightarrow> string \<Rightarrow> string \<Rightarrow> 'v pydict" where
  "SchemaInfoTool_run schema_info question db_id reasoning_type =
     (let db_schema = (case schema_info db_id of None \<Rightarrow> JObj [] | Some s \<Rightarrow> s) in
      [(''schema_info'', Json db_schema),
       (''db_id'', Str db_id),
       (''reasoning_type'', Str reasoning_type),
       (''question'', Str question)])"

section \<open>SQLExecutionTool.run (lines 64-87)\<close>

text \<open>
  The body of the \<^verbatim>\<open>try\<close>: \<open>Inr (results, columns)\<close> when it runs through,
  \<open>Inl e\<close> when \<^verbatim>\<open>execute\<close> or \<^verbatim>\<open>fetchall\<close> raises.
\<close>

definition try_body ::
  "('db, 'cur, 'v) sqlite3 \<Rightarrow> string \<Rightarrow> string \<Rightarrow> 'db
     \<Rightarrow> (py_exception + 'v list list \<times> string list) \<times> 'db" where
  "try_body sq db_path sql_query d =
     (case execute sq db_path sql_query d of
        (Inl e, d1) \<Rightarrow> (Inl e, d1)
      | (Inr cur, d1) \<Rightarrow>
          (case fetchall sq cur d1 of
             (Inl e, d2) \<Rightarrow> (Inl e, d2)
           | (Inr results, d2) \<Rightarrow>
               (Inr (results,
                     (case description sq cur of
                        None \<Rightarrow> []
                      | Some ds \<Rightarrow> if ds = [] then [] else map item0 ds)),
                d2)))"

definition SQLExecutionTool_run ::
  "('db, 'cur, 'v) sqlite3 \<Rightarrow> (string \<rightharpoonup> string) \<Rightarrow> string \<Rightarrow> string
     \<Rightarrow> ('db, 'v, 'r) world \<Rightarrow> (py_exception + 'v pydict) \<times> ('db, 'v, 'r) world" where
  "SQLExecutionTool_run sq dbm sql_query db_id w =
     (case dbm db_id of
        None \<Rightarrow>
          (Inr [(''error'', Str (''No database found for db_id='' @ db_id)),
                (''sql_query'', Str sql_query),
                (''db_id'', Str db_id)], w)
      | Some db_path \<Rightarrow>
          (case connect sq db_path (db w) of
             Inl e \<Rightarrow> (Inl e, w)
           | Inr d0 \<Rightarrow>
               (let conn = next_conn w;
                    w1 = w\<lparr>db := d0, open_conns := conn # open_conns w, next_conn := Suc conn\<rparr>;
                    (body, d1) = try_body sq db_path sql_query (db w1);
                    w2 = w1\<lparr>db := d1\<rparr>;
                    (results, columns, w3) =
                      (case body of
                         Inr (rs, cs) \<Rightarrow> (rs, cs, w2)
                       | Inl e \<Rightarrow>
                           ([], [], w2\<lparr>stdout := stdout w2 @ [''Error executing query: '' @ str_exc e]\<rparr>));
                    w4 = w3\<lparr>db := close sq db_path (db w3),
                            open_conns := removeAll conn (open_conns w3)\<rparr>
                in (Inr [(''columns'', Names columns),
                         (''rows'', Rows results),
                         (''db_id'', Str db_id),
                         (''sql_query'', Str sql_query)], w4))))"

section \<open>Tools and agents (lines 39-62, 89-96, 134-140, 157-163)\<close>

text \<open>
  A \<^verbatim>\<open>Tool\<close> holds its name, its description and \<^verbatim>\<open>func\<close>, here the bound
  \<^verbatim>\<open>run\<close> method, called with keyword arguments.
\<close>

record ('db, 'v, 'r) tool =
  tool_name :: string
  tool_description :: string
  func :: "(string \<times> string) list \<Rightarrow> ('db, 'v, 'r) world
             \<Rightarrow> (py_exception + 'v pydict) \<times> ('db, 'v, 'r) world"

text \<open>
  Binding keyword arguments to the parameters of \<^verbatim>\<open>run\<close>: every parameter is
  given, and no other keyword is.
\<close>

fun bind_params :: "string list \<Rightarrow> (string \<times> string) list \<Rightarrow> string list option" where
  "bind_params [] kwargs = Some []"
| "bind_params (p # ps) kwargs =
     (case map_of kwargs p of
        None \<Rightarrow> None
      | Some v \<Rightarrow> map_option ((#) v) (bind_params ps kwargs))"

definition bind_kwargs :: "string list \<Rightarrow> (string \<times> string) list \<Rightarrow> string list option" where
  "bind_kwargs params kwargs =
     (if list_all (\<lambda>k. k \<in> set params) (map fst kwargs) then bind_params params kwargs else None)"

definition bad_call :: py_exception where
  "bad_call = Raised ''TypeError'' ''run() called with the wrong keyword arguments''"

definition SchemaInfoTool :: "(string \<rightharpoonup> json) \<Rightarrow> ('db, 'v, 'r) tool" where
  "SchemaInfoTool schema_info =
     \<lparr>tool_name = ''schema_info_tool'',
      tool_description =
        ''Return the schema_info for a given db_id, along with question and reasoning_type.'',
      func = (\<lambda>kwargs w.
        (case bind_kwargs [''question'', ''db_id'', ''reasoning_type''] kwargs of
           Some [question, db_id, reasoning_type] \<Rightarrow>
             (Inr (SchemaInfoTool_run schema_info question db_id reasoning_type), w)
         | _ \<Rightarrow> (Inl bad_call, w)))\<rparr>"

definition SQLExecutionTool ::
  "('db, 'cur, 'v) sqlite3 \<Rightarrow> (string \<rightharpoonup> string) \<Rightarrow> ('db, 'v, 'r) tool" where
  "SQLExecutionTool sq dbm =
     \<lparr>tool_name = ''sql_execution_tool'',
      tool_description =
        ''Execute the provided SQL query on the specified db_id and return the results.'',
      func = (\<lambda>kwargs w.
        (case bind_kwargs [''sql_query'', ''db_id''] kwargs of
           Some [sql_query, db_id] \<Rightarrow> SQLExecutionTool_run sq dbm sql_query db_id w
         | _ \<Rightarrow> (Inl bad_call, w)))\<rparr>"

text \<open>
  An \<^verbatim>\<open>Agent\<close>. An agent built without the \<^verbatim>\<open>tools\<close> keyword has no tools, one
  built without \<^verbatim>\<open>llm\<close> has none named.
\<close>

record ('db, 'v, 'r) agent =
  agent_name :: string
  role :: string
  goal :: string
  backstory :: string
  tools :: "('db, 'v, 'r) tool list"
  llm :: "string option"

definition knowledge_agent :: "(string \<rightharpoonup> json) \<Rightarrow> ('db, 'v, 'r) agent" where
  "knowledge_agent schema_info =
     \<lparr>agent_name = ''knowledge_agent'',
      role = ''System'',
      goal = ''Provide schema information and other database knowledge.'',
      backstory = ''This agent holds database schema details.'',
      tools = [SchemaInfoTool schema_info],
      llm = Some ''gpt-4o-mini''\<rparr>"

definition sql_generation_agent :: "('db, 'v, 'r) agent" where
  "sql_generation_agent =
     \<lparr>agent_name = ''sql_generation_agent'',
      role = ''System'',
      goal = ''Generate a correct SQL query from the question and schema links.'',
      backstory = ''This agent uses reasoning to produce an SQL query.'',
      tools = [],
      llm = Some ''gpt-4o-mini''\<rparr>"

definition sql_execution_agent ::
  "('db, 'cur, 'v) sqlite3 \<Rightarrow> (string \<rightharpoonup> string) \<Rightarrow> ('db, 'v, 'r) agent" where
  "sql_execution_agent sq dbm =
     \<lparr>agent_name = ''sql_execution_agent'',
      role = ''System'',
      goal = ''Execute the SQL query and return the results.'',
      backstory = ''This agent runs the SQL against the specified database.'',
      tools = [SQLExecutionTool sq dbm],
      llm = None\<rparr>"

section \<open>The button handler, from the chosen sample on (lines 206-244)\<close>

definition st_write :: "('v, 'r) element \<Rightarrow> ('db, 'v, 'r) world \<Rightarrow> ('db, 'v, 'r) world" where
  "st_write el w = w\<lparr>page := page w @ [el]\<rparr>"

text \<open>\<^verbatim>\<open>tools[0].func(**kwargs)\<close>: IndexError on an empty list.\<close>

definition call_first_tool ::
  "('db, 'v, 'r) agent \<Rightarrow> (string \<times> string) list \<Rightarrow> ('db, 'v, 'r) world
     \<Rightarrow> (py_exception + 'v pydict) \<times> ('db, 'v, 'r) world" where
  "call_first_tool a kwargs w =
     (case tools a of
        [] \<Rightarrow> (Inl (Raised ''IndexError'' ''list index out of range''), w)
      | t # _ \<Rightarrow> func t kwargs w)"

text \<open>The loop over \<^verbatim>\<open>result["steps"].items()\<close>.\<close>

fun show_steps :: "(string \<times> 'r) list \<Rightarrow> ('db, 'v, 'r) world \<Rightarrow> ('db, 'v, 'r) world" where
  "show_steps [] w = w"
| "show_steps ((step_name, step_output) # rest) w =
     show_steps rest
       (st_write (Write_result step_output) (st_write (Markdown (''**'' @ step_name @ ''**'')) w))"

text \<open>Lines 206-208: the sample is shown.\<close>

definition show_sample ::
  "string \<Rightarrow> string \<Rightarrow> string \<Rightarrow> ('db, 'v, 'r) world \<Rightarrow> ('db, 'v, 'r) world" where
  "show_sample question selected_db reasoning_type w =
     st_write (Write_text (''**Reasoning Type:** '' @ reasoning_type))
       (st_write (Write_text (''**Database ID:** '' @ selected_db))
         (st_write (Write_text (''**Question:** '' @ question)) w))"

text \<open>
  Lines 219-231: the result of \<^verbatim>\<open>crew.kickoff\<close> is shown. \<open>steps_of\<close> reads
  \<^verbatim>\<open>result["steps"]\<close> (\<open>None\<close> when \<^verbatim>\<open>"steps" in result\<close> is false); it
  belongs to crewai and is a parameter.
\<close>

definition show_result ::
  "('r \<Rightarrow> (string \<times> 'r) list option) \<Rightarrow> 'r \<Rightarrow> ('db, 'v, 'r) world \<Rightarrow> ('db, 'v, 'r) world" where
  "show_result steps_of result w =
     (let w1 = st_write (Write_result result) (st_write (Markdown ''### Final Agentic Result'') w)
      in case steps_of result of
           None \<Rightarrow> w1
         | Some items \<Rightarrow> show_steps items (st_write (Markdown ''### Intermediate Steps'') w1))"

text \<open>
  Lines 233-244: the vanilla approach. \<^verbatim>\<open>run\<close> is declared with a \<^verbatim>\<open>str\<close>
  query; both tools of this file store a string under \<^verbatim>\<open>"sql_query"\<close> when they
  store anything, so the last branch below is never taken with them.
\<close>

definition vanilla ::
  "('db, 'cur, 'v) sqlite3 \<Rightarrow> (string \<rightharpoonup> string) \<Rightarrow> string \<Rightarrow> string \<Rightarrow> string
     \<Rightarrow> ('db, 'v, 'r) world \<Rightarrow> (py_exception + unit) \<times> ('db, 'v, 'r) world" where
  "vanilla sq dbm question selected_db reasoning_type w =
     (case (if tools (sql_generation_agent :: ('db, 'v, 'r) agent) \<noteq> []
            then call_first_tool sql_generation_agent
                   [(''question'', question), (''db_id'', selected_db),
                    (''reasoning_type'', reasoning_type)] w
            else (Inr [], w)) of
        (Inl e, w1) \<Rightarrow> (Inl e, w1)
      | (Inr vanilla_sql_res, w1) \<Rightarrow>
          (let w2 = st_write (Markdown ''### Vanilla LLM (No Knowledge / No Schema Linking)'') w1
           in case map_of vanilla_sql_res ''sql_query'' of
                None \<Rightarrow>
                  (Inr (),
                   st_write (Write_text
                     ''Vanilla LLM did not produce a valid SQL query or no direct baseline method available.'')
                     w2)
              | Some (Str sql_query) \<Rightarrow>
                  (case call_first_tool (sql_execution_agent sq dbm)
                          [(''sql_query'', sql_query), (''db_id'', selected_db)] w2 of
                     (Inl e, w3) \<Rightarrow> (Inl e, w3)
                   | (Inr vanilla_exec_res, w3) \<Rightarrow>
                       (Inr (),
                        st_write (Write_dict vanilla_exec_res)
                          (st_write (Write_text ''Vanilla LLM Execution Result:'') w3)))
              | Some _ \<Rightarrow> (Inl bad_call, w2)))"

text \<open>
  Lines 206-244 in sequence. \<open>kickoff\<close> is \<^verbatim>\<open>crew.kickoff\<close>, which belongs to
  crewai and is a parameter. The handler has no \<^verbatim>\<open>try\<close>: an exception of a call
  ends it.
\<close>

definition pipeline ::
  "('db, 'cur, 'v) sqlite3 \<Rightarrow> (string \<rightharpoonup> string)
     \<Rightarrow> ((string \<times> string) list \<Rightarrow> ('db, 'v, 'r) world \<Rightarrow> (py_exception + 'r) \<times> ('db, 'v, 'r) world)
     \<Rightarrow> ('r \<Rightarrow> (string \<times> 'r) list option)
     \<Rightarrow> string \<Rightarrow> string \<Rightarrow> string
     \<Rightarrow> ('db, 'v, 'r) world \<Rightarrow> (py_exception + unit) \<times> ('db, 'v, 'r) world" where
  "pipeline sq dbm kickoff steps_of question selected_db reasoning_type w =
     (case kickoff [(''question'', question), (''db_id'', selected_db),
                    (''reasoning_type'', reasoning_type)]
             (show_sample question selected_db reasoning_type w) of
        (Inl e, w1) \<Rightarrow> (Inl e, w1)
      | (Inr result, w1) \<Rightarrow>
          vanilla sq dbm question selected_db reasoning_type (show_result steps_of result w1))"

section \<open>A small database to run the definitions on\<close>

text \<open>
  An engine that knows one file, \<^verbatim>\<open>./data/database/film_db/film_db.sqlite\<close>, and
  two statements on its table \<^verbatim>\<open>films(id, title, year)\<close>. The engine state is the
  table's rows, or \<open>None\<close> when the table does not exist.
\<close>

datatype sqlval = SInt int | SText string | SNull

type_synonym film_state = "(int \<times> string \<times> int) list option"

type_synonym film_cursor = "descriptor list option \<times> sqlval list list"

definition film_path :: string where
  "film_path = ''./data/database/film_db/film_db.sqlite''"

definition film_execute ::
  "string \<Rightarrow> string \<Rightarrow> film_state \<Rightarrow> (py_exception + film_cursor) \<times> film_state" where
  "film_execute path q d =
     (if q = ''SELECT title FROM films WHERE year = 2016'' then
        (case d of
           None \<Rightarrow> (Inl (Raised ''OperationalError'' ''no such table: films''), d)
         | Some rows \<Rightarrow>
             (Inr (Some [Descriptor ''title''],
                   map (\<lambda>(i, t, y). [SText t]) (filter (\<lambda>(i, t, y). y = 2016) rows)), d))
      else if q = ''DELETE FROM films WHERE 0'' then
        (case d of
           None \<Rightarrow> (Inl (Raised ''OperationalError'' ''no such table: films''), d)
         | Some rows \<Rightarrow> (Inr (None, []), d))
      else if q = ''SELECT * FROM nonexistent_table'' then
        (Inl (Raised ''OperationalError'' ''no such table: nonexistent_table''), d)
      else (Inl (Raised ''OperationalError'' ''syntax error''), d))"

definition film_engine :: "(film_state, film_cursor, sqlval) sqlite3" where
  "film_engine =
     \<lparr>connect = (\<lambda>path d.
        if path = film_path then Inr d
        else Inl (Raised ''OperationalError'' ''unable to open database file'')),
      execute = film_execute,
      fetchall = (\<lambda>cur d. (Inr (snd cur), d)),
      description = fst,
      close = (\<lambda>path d. d)\<rparr>"

definition film_fs :: filesystem where
  "film_fs =
     \<lparr>listdir = [''film_db'', ''notes.txt''],
      isdir = (\<lambda>p. p = ''./data/database/film_db''),
      exists = (\<lambda>p. p = ''./data/database/film_db/film_db.sqlite''
                    \<or> p = ''./data/database/film_db/film_db.db'')\<rparr>"

definition film_schema_info :: "string \<rightharpoonup> json" where
  "film_schema_info =
     [''film_db'' \<mapsto> JObj [(''films'', JArr [JStr ''id'', JStr ''title'', JStr ''year''])]]"

definition film_world :: "(film_state, sqlval, string) world" where
  "film_world =
     \<lparr>db = Some [(1, ''Arrival'', 2016)], open_conns = [], next_conn = 0, stdout = [], page = []\<rparr>"

definition empty_world :: "(film_state, sqlval, string) world" where
  "empty_world = \<lparr>db = None, open_conns = [], next_conn = 0, stdout = [], page = []\<rparr>"

text \<open>Two stand-ins for \<^verbatim>\<open>crew.kickoff\<close>: one that returns, one that raises.\<close>

definition kickoff_done ::
  "(string \<times> string) list \<Rightarrow> (film_state, sqlval, string) world
     \<Rightarrow> (py_exception + string) \<times> (film_state, sqlval, string) world" where
  "kickoff_done inputs w = (Inr ''done'', w)"

definition kickoff_fails ::
  "(string \<times> string) list \<Rightarrow> (film_state, sqlval, string) world
     \<Rightarrow> (py_exception + string) \<times> (film_state, sqlval, string) world" where
  "kickoff_fails inputs w = (Inl (Raised ''ValueError'' ''no response''), w)"

definition no_steps :: "string \<Rightarrow> (string \<times> string) list option" where
  "no_steps result = None"

text \<open>
  A second engine for the same file, whose state is more than the file: the contents of
  the database and the state of the engine's random source. \<^verbatim>\<open>SELECT random()\<close>
  reads and advances the random source and leaves the file alone;
  \<^verbatim>\<open>DROP TABLE films\<close> is data definition, which sqlite3 runs outside any
  transaction, so it is in the file when \<^verbatim>\<open>execute\<close> returns.
\<close>

record seeded_state =
  file_contents :: film_state
  random_source :: nat

definition seeded_execute ::
  "string \<Rightarrow> string \<Rightarrow> seeded_state \<Rightarrow> (py_exception + film_cursor) \<times> seeded_state" where
  "seeded_execute path q d =
     (if q = ''SELECT random()'' then
        (Inr (Some [Descriptor ''random()''], [[SInt (int (random_source d))]]),
         d\<lparr>random_source := Suc (random_source d)\<rparr>)
      else if q = ''DROP TABLE films'' then
        (case file_contents d of
           None \<Rightarrow> (Inl (Raised ''OperationalError'' ''no such table: films''), d)
         | Some rows \<Rightarrow> (Inr (None, []), d\<lparr>file_contents := None\<rparr>))
      else (Inl (Raised ''OperationalError'' ''syntax error''), d))"

definition seeded_engine :: "(seeded_state, film_cursor, sqlval) sqlite3" where
  "seeded_engine =
     \<lparr>connect = (\<lambda>path d.
        if path = film_path then Inr d
        else Inl (Raised ''OperationalError'' ''unable to open database file'')),
      execute = seeded_execute,
      fetchall = (\<lambda>cur d. (Inr (snd cur), d)),
      description = fst,
      close = (\<lambda>path d. d)\<rparr>"

definition seeded_world :: "(seeded_state, sqlval, string) world" where
  "seeded_world =
     \<lparr>db = \<lparr>file_contents = Some [(1, ''Arrival'', 2016)], random_source = 7\<rparr>,
      open_conns = [], next_conn = 0, stdout = [], page = []\<rparr>"

section \<open>The directory scan\<close>

lemma scan_lookup:
  "scan fs ds m k = (if k \<in> set ds \<and> db_entry fs k \<noteq> None then db_entry fs k else m k)"
  by (induction ds arbitrary: m) (auto split: option.splits)

lemma db_map_lookup:
  "db_map fs k = (if k \<in> set (listdir fs) then db_entry fs k else None)"
  by (auto simp: db_map_def scan_lookup)

lemma candidates_differ:
  "path_join a (db_id @ ''.sqlite'') \<noteq> path_join a (db_id @ ''.db'')"
  by (cases db_id) (auto simp: path_join_def)

lemma db_map_film: "db_map film_fs = [''film_db'' \<mapsto> film_path]"
  by (simp add: db_map_def film_fs_def db_entry_def path_join_def BASE_DIR_def film_path_def)

lemma film_registry: "db_map film_fs ''film_db'' = Some film_path"
  by (simp add: db_map_film)

lemma film_missing: "db_map film_fs ''missing_db'' = None"
  by (simp add: db_map_film)

text \<open>
  Claim C6. A directory \<open>db_id\<close> found by the scan that holds both
  \<^verbatim>\<open><db_id>.sqlite\<close> and \<^verbatim>\<open><db_id>.db\<close> is mapped to one handle, the
  \<^verbatim>\<open>.sqlite\<close> file, and not to the \<^verbatim>\<open>.db\<close> file. (The registry is a
  function of the identifier, so an identifier never has two handles.)
\<close>

theorem sqlite_file_takes_precedence:
  assumes "db_id \<in> set (listdir fs)"
    and "isdir fs (path_join BASE_DIR db_id)"
    and "exists fs (path_join (path_join BASE_DIR db_id) (db_id @ ''.sqlite''))"
    and "exists fs (path_join (path_join BASE_DIR db_id) (db_id @ ''.db''))"
  shows "db_map fs db_id = Some (path_join (path_join BASE_DIR db_id) (db_id @ ''.sqlite''))
       \<and> db_map fs db_id \<noteq> Some (path_join (path_join BASE_DIR db_id) (db_id @ ''.db''))"
  using assms by (simp add: db_map_lookup db_entry_def Let_def candidates_differ)

text \<open>The film directory holds both files; the registry names the \<^verbatim>\<open>.sqlite\<close> one.\<close>

theorem sqlite_file_takes_precedence_witness:
  "''film_db'' \<in> set (listdir film_fs)
   \<and> isdir film_fs (path_join BASE_DIR ''film_db'')
   \<and> exists film_fs (path_join (path_join BASE_DIR ''film_db'') (''film_db'' @ ''.sqlite''))
   \<and> exists film_fs (path_join (path_join BASE_DIR ''film_db'') (''film_db'' @ ''.db''))
   \<and> db_map film_fs ''film_db'' = Some ''./data/database/film_db/film_db.sqlite''
   \<and> db_map film_fs ''film_db'' \<noteq> Some ''./data/database/film_db/film_db.db''"
proof -
  have a: "''film_db'' \<in> set (listdir film_fs)"
    by (simp add: film_fs_def)
  have b: "isdir film_fs (path_join BASE_DIR ''film_db'')"
    by (simp add: film_fs_def path_join_def BASE_DIR_def)
  have c: "exists film_fs (path_join (path_join BASE_DIR ''film_db'') (''film_db'' @ ''.sqlite''))"
    by (simp add: film_fs_def path_join_def BASE_DIR_def)
  have d: "exists film_fs (path_join (path_join BASE_DIR ''film_db'') (''film_db'' @ ''.db''))"
    by (simp add: film_fs_def path_join_def BASE_DIR_def)
  from sqlite_file_takes_precedence [OF a b c d] a b c d
  show ?thesis by (simp add: path_join_def BASE_DIR_def)
qed

section \<open>Schema retrieval\<close>

lemma bind_schema_kwargs:
  "bind_kwargs [''question'', ''db_id'', ''reasoning_type'']
     [(''question'', question), (''db_id'', db_id), (''reasoning_type'', reasoning_type)]
   = Some [question, db_id, reasoning_type]"
  by (simp add: bind_kwargs_def)

text \<open>
  Claim C5. \<^verbatim>\<open>SchemaInfoTool.run\<close> returns the stored description of \<open>db_id\<close>, the
  empty dictionary when \<open>db_id\<close> is unknown, together with the question, \<open>db_id\<close> and
  the reasoning type as given; called through the tool it returns, it does not raise, and
  leaves the state as it was.
\<close>

theorem schema_retrieval_returns_description:
  "(schema_info db_id = None \<longrightarrow>
      map_of (SchemaInfoTool_run schema_info question db_id reasoning_type :: 'v pydict)
        ''schema_info'' = Some (Json (JObj [])))
   \<and> (\<forall>s. schema_info db_id = Some s \<longrightarrow>
         map_of (SchemaInfoTool_run schema_info question db_id reasoning_type :: 'v pydict)
           ''schema_info'' = Some (Json s))
   \<and> map_of (SchemaInfoTool_run schema_info question db_id reasoning_type :: 'v pydict)
        ''question'' = Some (Str question)
   \<and> map_of (SchemaInfoTool_run schema_info question db_id reasoning_type :: 'v pydict)
        ''db_id'' = Some (Str db_id)
   \<and> map_of (SchemaInfoTool_run schema_info question db_id reasoning_type :: 'v pydict)
        ''reasoning_type'' = Some (Str reasoning_type)
   \<and> func (SchemaInfoTool schema_info)
        [(''question'', question), (''db_id'', db_id), (''reasoning_type'', reasoning_type)]
        (w :: ('db, 'v, 'r) world)
      = (Inr (SchemaInfoTool_run schema_info question db_id reasoning_type), w)"
  by (simp add: SchemaInfoTool_run_def SchemaInfoTool_def bind_schema_kwargs)

text \<open>An unknown and a known identifier against the film catalog.\<close>

theorem schema_retrieval_returns_description_witness:
  "film_schema_info ''missing_db'' = None
   \<and> map_of (SchemaInfoTool_run film_schema_info ''Which film?'' ''missing_db'' ''- - -''
               :: sqlval pydict) ''schema_info'' = Some (Json (JObj []))
   \<and> film_schema_info ''film_db''
       = Some (JObj [(''films'', JArr [JStr ''id'', JStr ''title'', JStr ''year''])])
   \<and> map_of (SchemaInfoTool_run film_schema_info ''Which film?'' ''film_db'' ''- - -''
               :: sqlval pydict) ''schema_info''
       = Some (Json (JObj [(''films'', JArr [JStr ''id'', JStr ''title'', JStr ''year''])]))
   \<and> func (SchemaInfoTool film_schema_info)
        [(''question'', ''Which film?''), (''db_id'', ''missing_db''),
         (''reasoning_type'', ''- - -'')] film_world
      = (Inr [(''schema_info'', Json (JObj [])), (''db_id'', Str ''missing_db''),
              (''reasoning_type'', Str ''- - -''), (''question'', Str ''Which film?'')],
         film_world)"
proof -
  have unknown: "film_schema_info ''missing_db'' = None"
    by (simp add: film_schema_info_def)
  have known: "film_schema_info ''film_db''
       = Some (JObj [(''films'', JArr [JStr ''id'', JStr ''title'', JStr ''year''])])"
    by (simp add: film_schema_info_def)
  from schema_retrieval_returns_description [of film_schema_info "''missing_db''"
      "''Which film?''" "''- - -''" film_world]
    schema_retrieval_returns_description [of film_schema_info "''film_db''"
      "''Which film?''" "''- - -''" film_world]
    unknown known
  show ?thesis by (simp add: SchemaInfoTool_run_def)
qed

section \<open>The exits of SQLExecutionTool.run\<close>

lemma run_unknown:
  "dbm db_id = None \<Longrightarrow>
   SQLExecutionTool_run sq dbm q db_id w =
     (Inr [(''error'', Str (''No database found for db_id='' @ db_id)),
           (''sql_query'', Str q), (''db_id'', Str db_id)], w)"
  by (simp add: SQLExecutionTool_run_def)

lemma run_connect_raises:
  "dbm db_id = Some p \<Longrightarrow> connect sq p (db w) = Inl e \<Longrightarrow>
   SQLExecutionTool_run sq dbm q db_id w = (Inl e, w)"
  by (simp add: SQLExecutionTool_run_def)

lemma run_body_raises:
  "dbm db_id = Some p \<Longrightarrow> connect sq p (db w) = Inr d0 \<Longrightarrow>
   try_body sq p q d0 = (Inl e, d1) \<Longrightarrow>
   SQLExecutionTool_run sq dbm q db_id w =
     (Inr [(''columns'', Names []), (''rows'', Rows []), (''db_id'', Str db_id), (''sql_query'', Str q)],
      w\<lparr>db := close sq p d1,
        open_conns := removeAll (next_conn w) (next_conn w # open_conns w),
        next_conn := Suc (next_conn w),
        stdout := stdout w @ [''Error executing query: '' @ str_exc e]\<rparr>)"
  by (simp add: SQLExecutionTool_run_def Let_def)

lemma run_body_returns:
  "dbm db_id = Some p \<Longrightarrow> connect sq p (db w) = Inr d0 \<Longrightarrow>
   try_body sq p q d0 = (Inr (rs, cs), d1) \<Longrightarrow>
   SQLExecutionTool_run sq dbm q db_id w =
     (Inr [(''columns'', Names cs), (''rows'', Rows rs), (''db_id'', Str db_id), (''sql_query'', Str q)],
      w\<lparr>db := close sq p d1,
        open_conns := removeAll (next_conn w) (next_conn w # open_conns w),
        next_conn := Suc (next_conn w)\<rparr>)"
  by (simp add: SQLExecutionTool_run_def Let_def)

text \<open>The four exits are all there are.\<close>

lemma run_cases:
  obtains
    (unknown) "dbm db_id = None"
  | (connect_raises) p e where "dbm db_id = Some p" "connect sq p (db w) = Inl e"
  | (body_raises) p d0 e d1 where "dbm db_id = Some p" "connect sq p (db w) = Inr d0"
      "try_body sq p q d0 = (Inl e, d1)"
  | (body_returns) p d0 rs cs d1 where "dbm db_id = Some p" "connect sq p (db w) = Inr d0"
      "try_body sq p q d0 = (Inr (rs, cs), d1)"
proof (cases "dbm db_id")
  case None
  then show ?thesis by (rule unknown)
next
  case (Some p)
  show ?thesis
  proof (cases "connect sq p (db w)")
    case (Inl e)
    with Some show ?thesis by (rule connect_raises)
  next
    case (Inr d0)
    obtain body d1 where b: "try_body sq p q d0 = (body, d1)"
      by (cases "try_body sq p q d0")
    show ?thesis
    proof (cases body)
      case (Inl e)
      with Some Inr b show ?thesis by (auto intro: body_raises)
    next
      case (Inr rc)
      obtain rs cs where "rc = (rs, cs)" by (cases rc)
      with Some \<open>connect sq p (db w) = Inr d0\<close> b Inr show ?thesis
        by (auto intro: body_returns)
    qed
  qed
qed

lemma run_result_db:
  fixes w v :: "('db, 'v, 'r) world"
  assumes "db w = db v"
  shows "fst (SQLExecutionTool_run sq dbm q db_id w) = fst (SQLExecutionTool_run sq dbm q db_id v)"
proof (cases rule: run_cases [where dbm = dbm and db_id = db_id and sq = sq and w = w and q = q])
  case unknown
  then show ?thesis by (simp add: run_unknown)
next
  case (connect_raises p e)
  then show ?thesis using assms by (simp add: run_connect_raises)
next
  case (body_raises p d0 e d1)
  then show ?thesis using assms
    by (simp add: run_body_raises [where ?d0.0 = d0 and ?d1.0 = d1 and e = e])
next
  case (body_returns p d0 rs cs d1)
  then show ?thesis using assms
    by (simp add: run_body_returns [where ?d0.0 = d0 and ?d1.0 = d1])
qed


section \<open>The film database, evaluated\<close>

lemma film_connect: "connect film_engine film_path d = Inr d"
  by (simp add: film_engine_def)

lemma film_select:
  "try_body film_engine film_path ''SELECT title FROM films WHERE year = 2016''
     (Some [(1, ''Arrival'', 2016)])
   = (Inr ([[SText ''Arrival'']], [''title'']), Some [(1, ''Arrival'', 2016)])"
  by (simp add: try_body_def film_engine_def film_execute_def)

lemma film_no_table:
  "try_body film_engine film_path ''SELECT * FROM nonexistent_table'' d
   = (Inl (Raised ''OperationalError'' ''no such table: nonexistent_table''), d)"
  by (simp add: try_body_def film_engine_def film_execute_def)

lemma film_delete_raises:
  "try_body film_engine film_path ''DELETE FROM films WHERE 0'' None
   = (Inl (Raised ''OperationalError'' ''no such table: films''), None)"
  by (simp add: try_body_def film_engine_def film_execute_def)

lemma film_delete_returns:
  "try_body film_engine film_path ''DELETE FROM films WHERE 0'' (Some rows)
   = (Inr ([], []), Some rows)"
  by (simp add: try_body_def film_engine_def film_execute_def)

lemma film_close: "close film_engine p d = d"
  by (simp add: film_engine_def)

lemmas film_eval =
  SQLExecutionTool_run_def try_body_def film_engine_def film_execute_def film_world_def
  empty_world_def db_map_film film_path_def Let_def

lemma film_run_select:
  "SQLExecutionTool_run film_engine (db_map film_fs)
     ''SELECT title FROM films WHERE year = 2016'' ''film_db'' film_world
   = (Inr [(''columns'', Names [''title'']), (''rows'', Rows [[SText ''Arrival'']]),
           (''db_id'', Str ''film_db''),
           (''sql_query'', Str ''SELECT title FROM films WHERE year = 2016'')],
      film_world\<lparr>next_conn := 1\<rparr>)"
  by (simp add: film_eval)

lemma film_run_no_table:
  "SQLExecutionTool_run film_engine (db_map film_fs)
     ''SELECT * FROM nonexistent_table'' ''film_db'' film_world
   = (Inr [(''columns'', Names []), (''rows'', Rows []),
           (''db_id'', Str ''film_db''),
           (''sql_query'', Str ''SELECT * FROM nonexistent_table'')],
      film_world\<lparr>next_conn := 1,
        stdout := [''Error executing query: no such table: nonexistent_table'']\<rparr>)"
  by (simp add: film_eval)

lemma film_run_missing:
  "SQLExecutionTool_run film_engine (db_map film_fs) ''SELECT 1'' ''missing_db'' film_world
   = (Inr [(''error'', Str ''No database found for db_id=missing_db''),
           (''sql_query'', Str ''SELECT 1''), (''db_id'', Str ''missing_db'')],
      film_world)"
  by (simp add: film_eval)

section \<open>An identifier the registry does not know\<close>

text \<open>
  Claim C2, as stated, fails: for the unknown identifier \<^verbatim>\<open>missing_db\<close> the error
  text is \<^verbatim>\<open>No database found for db_id=missing_db\<close>, with a capital N, which is not
  the string \<^verbatim>\<open>no database found for db_id=missing_db\<close>.
\<close>

theorem unknown_db_lowercase_message_counterexample:
  "SQLExecutionTool_run film_engine (db_map film_fs) ''SELECT 1'' ''missing_db'' film_world
   = (Inr [(''error'', Str ''No database found for db_id=missing_db''),
           (''sql_query'', Str ''SELECT 1''), (''db_id'', Str ''missing_db'')],
      film_world)
   \<and> (Str ''No database found for db_id=missing_db'' :: sqlval pyval)
       \<noteq> Str ''no database found for db_id=missing_db''"
  by (simp add: film_run_missing)

text \<open>
  Claim C2, amended. For every query and every \<open>db_id\<close> the registry does not know,
  \<^verbatim>\<open>SQLExecutionTool.run\<close> returns, without raising, a result whose error is
  \<^verbatim>\<open>No database found for db_id=<db_id>\<close>, with the query and \<open>db_id\<close> beside it. The
  state is returned as it was: no connection is opened, nothing is executed, nothing is
  printed.
\<close>

theorem unknown_db_returns_error:
  assumes "dbm db_id = None"
  shows "SQLExecutionTool_run sq dbm sql_query db_id w =
           (Inr [(''error'', Str (''No database found for db_id='' @ db_id)),
                 (''sql_query'', Str sql_query),
                 (''db_id'', Str db_id)], w)"
  using assms by (rule run_unknown)

text \<open>
  The amended claim at \<^verbatim>\<open>missing_db\<close>.
\<close>

theorem unknown_db_returns_error_witness:
  "db_map film_fs ''missing_db'' = None
   \<and> SQLExecutionTool_run film_engine (db_map film_fs) ''SELECT 1'' ''missing_db'' film_world =
       (Inr [(''error'', Str ''No database found for db_id=missing_db''),
             (''sql_query'', Str ''SELECT 1''),
             (''db_id'', Str ''missing_db'')], film_world)"
  using unknown_db_returns_error [where dbm = "db_map film_fs" and db_id = "''missing_db''"
      and sq = film_engine and sql_query = "''SELECT 1''" and w = film_world]
    film_missing
  by simp

section \<open>A query whose execution raises\<close>

text \<open>
  Claim C1, as stated, fails: \<^verbatim>\<open>SELECT * FROM nonexistent_table\<close> on the registered
  \<^verbatim>\<open>film_db\<close> raises in the engine, and the result returned has no error field at all.
\<close>

theorem failed_execution_error_field_counterexample:
  "SQLExecutionTool_run film_engine (db_map film_fs)
     ''SELECT * FROM nonexistent_table'' ''film_db'' film_world
   = (Inr [(''columns'', Names []), (''rows'', Rows []),
           (''db_id'', Str ''film_db''),
           (''sql_query'', Str ''SELECT * FROM nonexistent_table'')],
      film_world\<lparr>next_conn := 1,
        stdout := [''Error executing query: no such table: nonexistent_table'']\<rparr>)
   \<and> map_of [(''columns'', Names []), (''rows'', Rows ([] :: sqlval list list)),
              (''db_id'', Str ''film_db''),
              (''sql_query'', Str ''SELECT * FROM nonexistent_table'')] ''error'' = None"
  by (simp add: film_run_no_table)

text \<open>
  Claim C1, amended. When \<open>db_id\<close> is registered, the connection opens and the
  execution of the query raises \<open>e\<close> (in \<^verbatim>\<open>execute\<close> or in \<^verbatim>\<open>fetchall\<close>),
  \<^verbatim>\<open>SQLExecutionTool.run\<close> does not raise: it returns a result with empty columns and
  empty rows (and no error field), and the diagnostic
  \<^verbatim>\<open>Error executing query: <e>\<close> has been printed.
\<close>

theorem failed_execution_is_caught:
  assumes "dbm db_id = Some db_path"
    and "connect sq db_path (db w) = Inr d0"
    and "try_body sq db_path sql_query d0 = (Inl e, d1)"
  shows "fst (SQLExecutionTool_run sq dbm sql_query db_id w) =
           Inr [(''columns'', Names []), (''rows'', Rows []),
                (''db_id'', Str db_id), (''sql_query'', Str sql_query)]
       \<and> stdout (snd (SQLExecutionTool_run sq dbm sql_query db_id w)) =
           stdout w @ [''Error executing query: '' @ str_exc e]"
  using run_body_raises [where dbm = dbm and db_id = db_id, OF assms] by simp

text \<open>
  The amended claim at the missing table.
\<close>

theorem failed_execution_is_caught_witness:
  "db_map film_fs ''film_db'' = Some film_path
   \<and> connect film_engine film_path (db film_world) = Inr (db film_world)
   \<and> try_body film_engine film_path ''SELECT * FROM nonexistent_table'' (db film_world)
       = (Inl (Raised ''OperationalError'' ''no such table: nonexistent_table''), db film_world)
   \<and> fst (SQLExecutionTool_run film_engine (db_map film_fs)
             ''SELECT * FROM nonexistent_table'' ''film_db'' film_world) =
         Inr [(''columns'', Names []), (''rows'', Rows []),
              (''db_id'', Str ''film_db''),
              (''sql_query'', Str ''SELECT * FROM nonexistent_table'')]
   \<and> stdout (snd (SQLExecutionTool_run film_engine (db_map film_fs)
             ''SELECT * FROM nonexistent_table'' ''film_db'' film_world)) =
         [''Error executing query: no such table: nonexistent_table'']"
  using failed_execution_is_caught [where dbm = "db_map film_fs" and db_id = "''film_db''"
      and sq = film_engine and w = film_world and ?d0.0 = "db film_world"
      and sql_query = "''SELECT * FROM nonexistent_table''", OF film_registry film_connect
      film_no_table]
    film_registry film_connect [of "db film_world"] film_no_table [of "db film_world"]
  by (simp add: film_world_def)

section \<open>No error field for a registered database\<close>

text \<open>
  Claim C9. For a registered \<open>db_id\<close>, a result that \<^verbatim>\<open>SQLExecutionTool.run\<close>
  returns has no error field; and when the connection opened, an execution that raised
  and one that returned no columns and no rows give the same dictionary.
\<close>

theorem registered_db_result_has_no_error_field:
  assumes "dbm db_id = Some db_path"
    and "SQLExecutionTool_run sq dbm sql_query db_id w = (Inr d, w')"
  shows "map_of d ''error'' = None
       \<and> (\<forall>d0 d1. connect sq db_path (db w) = Inr d0 \<longrightarrow>
             (\<exists>e. try_body sq db_path sql_query d0 = (Inl e, d1))
               \<or> try_body sq db_path sql_query d0 = (Inr ([], []), d1) \<longrightarrow>
             d = [(''columns'', Names []), (''rows'', Rows []),
                  (''db_id'', Str db_id), (''sql_query'', Str sql_query)])"
proof (cases rule: run_cases [where dbm = dbm and db_id = db_id and sq = sq and w = w
      and q = sql_query])
  case unknown
  with assms(1) show ?thesis by simp
next
  case (connect_raises p e)
  with assms show ?thesis by (simp add: run_connect_raises)
next
  case (body_raises p d0 e d1)
  with assms show ?thesis
    by (auto simp: run_body_raises [where ?d0.0 = d0 and ?d1.0 = d1 and e = e])
next
  case (body_returns p d0 rs cs d1)
  with assms show ?thesis
    by (auto simp: run_body_returns [where ?d0.0 = d0 and ?d1.0 = d1])
qed

text \<open>
  \<^verbatim>\<open>DELETE FROM films WHERE 0\<close> raises where the table is missing and returns nothing
  where it exists; the two results are the same dictionary.
\<close>

theorem registered_db_result_has_no_error_field_witness:
  "db_map film_fs ''film_db'' = Some film_path
   \<and> fst (SQLExecutionTool_run film_engine (db_map film_fs)
             ''DELETE FROM films WHERE 0'' ''film_db'' empty_world)
     = Inr [(''columns'', Names []), (''rows'', Rows []),
            (''db_id'', Str ''film_db''), (''sql_query'', Str ''DELETE FROM films WHERE 0'')]
   \<and> fst (SQLExecutionTool_run film_engine (db_map film_fs)
             ''DELETE FROM films WHERE 0'' ''film_db'' film_world)
     = Inr [(''columns'', Names []), (''rows'', Rows []),
            (''db_id'', Str ''film_db''), (''sql_query'', Str ''DELETE FROM films WHERE 0'')]
   \<and> map_of [(''columns'', Names []), (''rows'', Rows ([] :: sqlval list list)),
            (''db_id'', Str ''film_db''), (''sql_query'', Str ''DELETE FROM films WHERE 0'')]
        ''error'' = None"
proof -
  let ?q = "''DELETE FROM films WHERE 0''"
  obtain d1 v1 where r1:
    "SQLExecutionTool_run film_engine (db_map film_fs) ?q ''film_db'' empty_world = (Inr d1, v1)"
    by (simp add: film_eval)
  obtain d2 v2 where r2:
    "SQLExecutionTool_run film_engine (db_map film_fs) ?q ''film_db'' film_world = (Inr d2, v2)"
    by (simp add: film_eval)
  have "try_body film_engine film_path ?q None
          = (Inl (Raised ''OperationalError'' ''no such table: films''), None)"
    by (rule film_delete_raises)
  with registered_db_result_has_no_error_field [where dbm = "db_map film_fs"
      and db_id = "''film_db''", OF film_registry r1] film_connect
  have e1: "map_of d1 ''error'' = None"
    and s1: "d1 = [(''columns'', Names []), (''rows'', Rows []),
              (''db_id'', Str ''film_db''), (''sql_query'', Str ?q)]"
    by (auto simp: empty_world_def)
  from registered_db_result_has_no_error_field [where dbm = "db_map film_fs"
      and db_id = "''film_db''", OF film_registry r2] film_connect
    film_delete_returns
  have s2: "d2 = [(''columns'', Names []), (''rows'', Rows []),
              (''db_id'', Str ''film_db''), (''sql_query'', Str ?q)]"
    by (auto simp: film_world_def)
  from r1 r2 e1 s1 s2 film_registry show ?thesis by simp
qed


section \<open>The inputs are echoed\<close>

text \<open>
  Claim C10. Every result \<^verbatim>\<open>SQLExecutionTool.run\<close> returns holds the query and
  \<open>db_id\<close> it was given, on each of its three returning branches.
\<close>

theorem result_echoes_query_and_db_id:
  assumes "SQLExecutionTool_run sq dbm sql_query db_id w = (Inr d, w')"
  shows "map_of d ''sql_query'' = Some (Str sql_query) \<and> map_of d ''db_id'' = Some (Str db_id)"
proof (cases rule: run_cases [where dbm = dbm and db_id = db_id and sq = sq and w = w
      and q = sql_query])
  case unknown
  with assms show ?thesis by (auto simp: run_unknown)
next
  case (connect_raises p e)
  with assms show ?thesis by (simp add: run_connect_raises)
next
  case (body_raises p d0 e d1)
  with assms show ?thesis
    by (auto simp: run_body_raises [where ?d0.0 = d0 and ?d1.0 = d1 and e = e])
next
  case (body_returns p d0 rs cs d1)
  with assms show ?thesis
    by (auto simp: run_body_returns [where ?d0.0 = d0 and ?d1.0 = d1])
qed

text \<open>
  The three branches: unknown identifier, successful query, failed query.
\<close>

theorem result_echoes_query_and_db_id_witness:
  "(\<exists>d. fst (SQLExecutionTool_run film_engine (db_map film_fs) ''SELECT 1'' ''missing_db'' film_world)
          = Inr d
        \<and> map_of d ''sql_query'' = Some (Str ''SELECT 1'')
        \<and> map_of d ''db_id'' = Some (Str ''missing_db''))
   \<and> (\<exists>d. fst (SQLExecutionTool_run film_engine (db_map film_fs)
                 ''SELECT title FROM films WHERE year = 2016'' ''film_db'' film_world) = Inr d
        \<and> map_of d ''sql_query'' = Some (Str ''SELECT title FROM films WHERE year = 2016'')
        \<and> map_of d ''db_id'' = Some (Str ''film_db''))
   \<and> (\<exists>d. fst (SQLExecutionTool_run film_engine (db_map film_fs)
                 ''SELECT * FROM nonexistent_table'' ''film_db'' film_world) = Inr d
        \<and> map_of d ''sql_query'' = Some (Str ''SELECT * FROM nonexistent_table'')
        \<and> map_of d ''db_id'' = Some (Str ''film_db''))"
  using result_echoes_query_and_db_id [OF film_run_missing]
    result_echoes_query_and_db_id [OF film_run_select]
    result_echoes_query_and_db_id [OF film_run_no_table]
  by (simp add: film_run_missing film_run_select film_run_no_table)

section \<open>The connection is closed\<close>



section \<open>Repeated calls\<close>

lemma seeded_run_random:
  "SQLExecutionTool_run seeded_engine (db_map film_fs) ''SELECT random()'' ''film_db''
     (seeded_world\<lparr>db := \<lparr>file_contents = c, random_source = n\<rparr>, next_conn := k\<rparr>)
   = (Inr [(''columns'', Names [''random()'']), (''rows'', Rows [[SInt (int n)]]),
           (''db_id'', Str ''film_db''), (''sql_query'', Str ''SELECT random()'')],
      seeded_world\<lparr>db := \<lparr>file_contents = c, random_source = Suc n\<rparr>, next_conn := Suc k\<rparr>)"
  by (simp add: SQLExecutionTool_run_def try_body_def seeded_engine_def seeded_execute_def
      seeded_world_def db_map_film film_path_def Let_def)

lemma seeded_world_unfold:
  "seeded_world
   = seeded_world\<lparr>db := \<lparr>file_contents = Some [(1, ''Arrival'', 2016)], random_source = 7\<rparr>,
       next_conn := 0\<rparr>"
  by (simp add: seeded_world_def)

lemma seeded_run_drop:
  "SQLExecutionTool_run seeded_engine (db_map film_fs) ''DROP TABLE films'' ''film_db'' seeded_world
   = (Inr [(''columns'', Names []), (''rows'', Rows []),
           (''db_id'', Str ''film_db''), (''sql_query'', Str ''DROP TABLE films'')],
      seeded_world\<lparr>db := \<lparr>file_contents = None, random_source = 7\<rparr>, next_conn := 1\<rparr>)"
  by (simp add: SQLExecutionTool_run_def try_body_def seeded_engine_def seeded_execute_def
      seeded_world_def db_map_film film_path_def Let_def)

text \<open>
  Claim C8, as stated, fails. \<^verbatim>\<open>SELECT random()\<close> is a valid query on the registered
  \<^verbatim>\<open>film_db\<close>; the first call leaves the contents of the database as they were, and
  the second call, with the same query and \<open>db_id\<close> on the same contents, returns
  other rows. Nor is execution read-only: \<^verbatim>\<open>DROP TABLE films\<close> changes the contents.
\<close>

theorem repeated_call_counterexample:
  "fst (SQLExecutionTool_run seeded_engine (db_map film_fs) ''SELECT random()'' ''film_db''
          seeded_world)
     = Inr [(''columns'', Names [''random()'']), (''rows'', Rows [[SInt 7]]),
            (''db_id'', Str ''film_db''), (''sql_query'', Str ''SELECT random()'')]
   \<and> file_contents (db (snd (SQLExecutionTool_run seeded_engine (db_map film_fs)
          ''SELECT random()'' ''film_db'' seeded_world)))
     = file_contents (db seeded_world)
   \<and> fst (SQLExecutionTool_run seeded_engine (db_map film_fs) ''SELECT random()'' ''film_db''
          (snd (SQLExecutionTool_run seeded_engine (db_map film_fs) ''SELECT random()''
                  ''film_db'' seeded_world)))
     = Inr [(''columns'', Names [''random()'']), (''rows'', Rows [[SInt 8]]),
            (''db_id'', Str ''film_db''), (''sql_query'', Str ''SELECT random()'')]
   \<and> file_contents (db (snd (SQLExecutionTool_run seeded_engine (db_map film_fs)
          ''DROP TABLE films'' ''film_db'' seeded_world)))
     \<noteq> file_contents (db seeded_world)"
proof -
  have first:
    "SQLExecutionTool_run seeded_engine (db_map film_fs) ''SELECT random()'' ''film_db''
       seeded_world
     = (Inr [(''columns'', Names [''random()'']), (''rows'', Rows [[SInt 7]]),
             (''db_id'', Str ''film_db''), (''sql_query'', Str ''SELECT random()'')],
        seeded_world\<lparr>db := \<lparr>file_contents = Some [(1, ''Arrival'', 2016)], random_source = 8\<rparr>,
          next_conn := 1\<rparr>)"
    using seeded_run_random [where c = "Some [(1, ''Arrival'', 2016)]" and n = 7 and k = 0]
    by (simp add: seeded_world_unfold [symmetric])
  have second:
    "fst (SQLExecutionTool_run seeded_engine (db_map film_fs) ''SELECT random()'' ''film_db''
       (seeded_world\<lparr>db := \<lparr>file_contents = Some [(1, ''Arrival'', 2016)], random_source = 8\<rparr>,
          next_conn := 1\<rparr>))
     = Inr [(''columns'', Names [''random()'']), (''rows'', Rows [[SInt 8]]),
            (''db_id'', Str ''film_db''), (''sql_query'', Str ''SELECT random()'')]"
    using seeded_run_random [where c = "Some [(1, ''Arrival'', 2016)]" and n = 8 and k = 1] by simp
  have contents: "file_contents (db seeded_world) = Some [(1, ''Arrival'', 2016)]"
    by (simp add: seeded_world_def)
  show ?thesis
    unfolding first seeded_run_drop using second contents by simp
qed

text \<open>
  Claim C8, amended. For a registered \<open>db_id\<close>: when connecting, executing the query
  and closing leave the engine state as it is (the contents of the database and whatever
  else the engine's answers depend on, such as its random source), a call of
  \<^verbatim>\<open>SQLExecutionTool.run\<close> leaves the engine state as it is, and a second call with
  the same query and \<open>db_id\<close> returns the same result, columns and rows included. The
  code itself commits nothing and keeps nothing between calls; it does not make a query
  read-only or deterministic.
\<close>

theorem read_only_query_repeats:
  assumes "dbm db_id = Some db_path"
    and "\<forall>d0. connect sq db_path (db w) = Inr d0 \<longrightarrow> d0 = db w"
    and "snd (try_body sq db_path sql_query (db w)) = db w"
    and "close sq db_path (db w) = db w"
  shows "db (snd (SQLExecutionTool_run sq dbm sql_query db_id w)) = db w
       \<and> fst (SQLExecutionTool_run sq dbm sql_query db_id
                (snd (SQLExecutionTool_run sq dbm sql_query db_id w)))
         = fst (SQLExecutionTool_run sq dbm sql_query db_id w)"
proof -
  have same: "db (snd (SQLExecutionTool_run sq dbm sql_query db_id w)) = db w"
  proof (cases rule: run_cases [where dbm = dbm and db_id = db_id and sq = sq and w = w
        and q = sql_query])
    case unknown
    with assms(1) show ?thesis by simp
  next
    case (connect_raises p e)
    then show ?thesis by (simp add: run_connect_raises)
  next
    case (body_raises p d0 e d1)
    with assms have "d0 = db w" "d1 = db w" by auto
    with body_raises assms(1,4) show ?thesis
      by (simp add: run_body_raises [where ?d0.0 = d0 and ?d1.0 = d1 and e = e])
  next
    case (body_returns p d0 rs cs d1)
    with assms have "d0 = db w" "d1 = db w" by auto
    with body_returns assms(1,4) show ?thesis
      by (simp add: run_body_returns [where ?d0.0 = d0 and ?d1.0 = d1])
  qed
  from run_result_db [OF same, of sq dbm sql_query db_id] same show ?thesis by simp
qed

text \<open>
  The select on the film database: it changes nothing in the engine, and a second call
  returns the same row.
\<close>

theorem read_only_query_repeats_witness:
  "db_map film_fs ''film_db'' = Some film_path
   \<and> connect film_engine film_path (db film_world) = Inr (db film_world)
   \<and> snd (try_body film_engine film_path ''SELECT title FROM films WHERE year = 2016''
            (db film_world)) = db film_world
   \<and> close film_engine film_path (db film_world) = db film_world
   \<and> db (snd (SQLExecutionTool_run film_engine (db_map film_fs)
        ''SELECT title FROM films WHERE year = 2016'' ''film_db'' film_world)) = db film_world
   \<and> fst (SQLExecutionTool_run film_engine (db_map film_fs)
        ''SELECT title FROM films WHERE year = 2016'' ''film_db''
        (snd (SQLExecutionTool_run film_engine (db_map film_fs)
           ''SELECT title FROM films WHERE year = 2016'' ''film_db'' film_world)))
     = Inr [(''columns'', Names [''title'']), (''rows'', Rows [[SText ''Arrival'']]),
            (''db_id'', Str ''film_db''),
            (''sql_query'', Str ''SELECT title FROM films WHERE year = 2016'')]"
proof -
  let ?q = "''SELECT title FROM films WHERE year = 2016''"
  have h2: "\<forall>d0. connect film_engine film_path (db film_world) = Inr d0 \<longrightarrow> d0 = db film_world"
    by (simp add: film_connect)
  have h3: "snd (try_body film_engine film_path ?q (db film_world)) = db film_world"
    by (simp add: film_world_def film_select)
  have h4: "close film_engine film_path (db film_world) = db film_world"
    by (rule film_close)
  have first: "fst (SQLExecutionTool_run film_engine (db_map film_fs) ?q ''film_db'' film_world)
     = Inr [(''columns'', Names [''title'']), (''rows'', Rows [[SText ''Arrival'']]),
            (''db_id'', Str ''film_db''), (''sql_query'', Str ?q)]"
    by (simp add: film_run_select)
  from read_only_query_repeats [where dbm = "db_map film_fs" and db_id = "''film_db''",
      OF film_registry h2 h3 h4]
  show ?thesis using film_registry film_connect [of "db film_world"] h3 h4 first by simp
qed

section \<open>The vanilla path of the handler\<close>

lemma vanilla_skips:
  "vanilla sq dbm question selected_db reasoning_type w =
     (Inr (),
      st_write (Write_text
        ''Vanilla LLM did not produce a valid SQL query or no direct baseline method available.'')
        (st_write (Markdown ''### Vanilla LLM (No Knowledge / No Schema Linking)'') w))"
  by (simp add: vanilla_def sql_generation_agent_def)

lemma st_write_frame [simp]:
  "db (st_write el w) = db w" "open_conns (st_write el w) = open_conns w"
  "next_conn (st_write el w) = next_conn w" "stdout (st_write el w) = stdout w"
  by (simp_all add: st_write_def)

lemma show_steps_frame [simp]:
  "db (show_steps items w) = db w" "open_conns (show_steps items w) = open_conns w"
  "next_conn (show_steps items w) = next_conn w" "stdout (show_steps items w) = stdout w"
  by (induction items w rule: show_steps.induct) simp_all

lemma show_result_frame [simp]:
  "db (show_result steps_of result w) = db w"
  "open_conns (show_result steps_of result w) = open_conns w"
  "next_conn (show_result steps_of result w) = next_conn w"
  "stdout (show_result steps_of result w) = stdout w"
  by (simp_all add: show_result_def Let_def split: option.splits)

text \<open>
  Claim C3, as stated, fails. With a \<^verbatim>\<open>crew.kickoff\<close> that returns, the handler
  writes no execution result for the vanilla path, opens no connection, and reports that
  no query was produced; with one that raises, the handler ends with that exception
  before the vanilla path is reached.
\<close>

theorem baseline_result_counterexample:
  "pipeline film_engine (db_map film_fs) kickoff_done no_steps
     ''Which film?'' ''film_db'' ''- - -'' film_world
   = (Inr (),
      film_world\<lparr>page :=
        [Write_text ''**Question:** Which film?'',
         Write_text ''**Database ID:** film_db'',
         Write_text ''**Reasoning Type:** - - -'',
         Markdown ''### Final Agentic Result'',
         Write_result ''done'',
         Markdown ''### Vanilla LLM (No Knowledge / No Schema Linking)'',
         Write_text
           ''Vanilla LLM did not produce a valid SQL query or no direct baseline method available.'']\<rparr>)
   \<and> pipeline film_engine (db_map film_fs) kickoff_fails no_steps
       ''Which film?'' ''film_db'' ''- - -'' film_world
     = (Inl (Raised ''ValueError'' ''no response''),
        film_world\<lparr>page :=
          [Write_text ''**Question:** Which film?'',
           Write_text ''**Database ID:** film_db'',
           Write_text ''**Reasoning Type:** - - -'']\<rparr>)"
  by (simp add: pipeline_def vanilla_skips show_result_def show_sample_def st_write_def
      kickoff_done_def kickoff_fails_def no_steps_def film_world_def Let_def)

text \<open>
  Claim C3, amended. When \<^verbatim>\<open>crew.kickoff\<close> returns, the handler shows its result and
  then, the SQL generation agent having no tools, runs neither SQL generation nor SQL
  execution for the vanilla path: it writes the heading and
  \<^verbatim>\<open>Vanilla LLM did not produce a valid SQL query or no direct baseline method available.\<close>,
  and the engine state, the handle counter and the output are those \<^verbatim>\<open>crew.kickoff\<close>
  left. When \<^verbatim>\<open>crew.kickoff\<close> raises, the handler ends with that exception.
\<close>

theorem baseline_is_skipped:
  "(kickoff [(''question'', question), (''db_id'', selected_db),
             (''reasoning_type'', reasoning_type)]
      (show_sample question selected_db reasoning_type w) = (Inr result, w1) \<longrightarrow>
      pipeline sq dbm kickoff steps_of question selected_db reasoning_type w =
        (Inr (),
         st_write (Write_text
           ''Vanilla LLM did not produce a valid SQL query or no direct baseline method available.'')
           (st_write (Markdown ''### Vanilla LLM (No Knowledge / No Schema Linking)'')
              (show_result steps_of result w1)))
      \<and> db (snd (pipeline sq dbm kickoff steps_of question selected_db reasoning_type w)) = db w1
      \<and> next_conn (snd (pipeline sq dbm kickoff steps_of question selected_db reasoning_type w))
          = next_conn w1
      \<and> stdout (snd (pipeline sq dbm kickoff steps_of question selected_db reasoning_type w))
          = stdout w1)
   \<and> (kickoff [(''question'', question), (''db_id'', selected_db),
               (''reasoning_type'', reasoning_type)]
        (show_sample question selected_db reasoning_type w) = (Inl e, w1) \<longrightarrow>
        pipeline sq dbm kickoff steps_of question selected_db reasoning_type w = (Inl e, w1))"
  by (simp add: pipeline_def vanilla_skips)

text \<open>
  The amended claim with a \<^verbatim>\<open>crew.kickoff\<close> that returns and one that raises.
\<close>

theorem baseline_is_skipped_witness:
  "kickoff_done [(''question'', ''Which film?''), (''db_id'', ''film_db''),
                 (''reasoning_type'', ''- - -'')]
     (show_sample ''Which film?'' ''film_db'' ''- - -'' film_world)
   = (Inr ''done'', show_sample ''Which film?'' ''film_db'' ''- - -'' film_world)
   \<and> pipeline film_engine (db_map film_fs) kickoff_done no_steps
       ''Which film?'' ''film_db'' ''- - -'' film_world
     = (Inr (),
        st_write (Write_text
          ''Vanilla LLM did not produce a valid SQL query or no direct baseline method available.'')
          (st_write (Markdown ''### Vanilla LLM (No Knowledge / No Schema Linking)'')
             (show_result no_steps ''done''
                (show_sample ''Which film?'' ''film_db'' ''- - -'' film_world))))
   \<and> kickoff_fails [(''question'', ''Which film?''), (''db_id'', ''film_db''),
                    (''reasoning_type'', ''- - -'')]
       (show_sample ''Which film?'' ''film_db'' ''- - -'' film_world)
     = (Inl (Raised ''ValueError'' ''no response''),
        show_sample ''Which film?'' ''film_db'' ''- - -'' film_world)
   \<and> pipeline film_engine (db_map film_fs) kickoff_fails no_steps
       ''Which film?'' ''film_db'' ''- - -'' film_world
     = (Inl (Raised ''ValueError'' ''no response''),
        show_sample ''Which film?'' ''film_db'' ''- - -'' film_world)"
proof -
  let ?w = "show_sample ''Which film?'' ''film_db'' ''- - -'' film_world"
  have ok: "kickoff_done [(''question'', ''Which film?''), (''db_id'', ''film_db''),
                 (''reasoning_type'', ''- - -'')] ?w = (Inr ''done'', ?w)"
    by (simp add: kickoff_done_def)
  have ko: "kickoff_fails [(''question'', ''Which film?''), (''db_id'', ''film_db''),
                 (''reasoning_type'', ''- - -'')] ?w = (Inl (Raised ''ValueError'' ''no response''), ?w)"
    by (simp add: kickoff_fails_def)
  from baseline_is_skipped [of kickoff_done "''Which film?''" "''film_db''" "''- - -''"
      film_world "''done''" ?w film_engine "db_map film_fs" no_steps]
    baseline_is_skipped [of kickoff_fails "''Which film?''" "''film_db''" "''- - -''"
      film_world _ ?w film_engine "db_map film_fs" no_steps "Raised ''ValueError'' ''no response''"]
    ok ko
  show ?thesis by simp
qed

end
